theory Spec2Isabelle
  imports Main
begin

section \<open>Python values used by the two scripts\<close>

text \<open>
  A Python \<open>str\<close> is modelled as a \<^typ>\<open>string\<close>: a list of characters, each character
  one code point below 256. The inputs of the program (dictionary words, guesses typed at
  the prompt) are lowercase ASCII words; the model covers all text of code points below
  256 and nothing beyond it.

  The exceptions that escape the modelled functions are \<open>IndexError\<close> (a string or a
  list indexed out of range) and \<open>EOFError\<close> (\<open>input()\<close> at the end of the console
  input). A function that can raise returns \<open>py_error + 'a\<close>, with \<open>Inl\<close> for the
  exception.
\<close>

datatype py_error = IndexError | EOFError

text \<open>\<open>word[pos]\<close> for a Python \<open>int\<close>: a negative index counts from the end.\<close>

definition str_index :: "string \<Rightarrow> int \<Rightarrow> py_error + char" where
  "str_index word pos =
     (if 0 \<le> pos \<and> pos < int (length word) then Inr (word ! nat pos)
      else if pos < 0 \<and> - int (length word) \<le> pos then Inr (word ! nat (int (length word) + pos))
      else Inl IndexError)"

text \<open>
  \<open>str.lower()\<close> on code points below 256: the letters \<open>A..Z\<close> and the Latin-1 capitals
  (\<open>0xC0..0xDE\<close> without the multiplication sign \<open>0xD7\<close>) move up by 32; every other
  code point is left as it is.
\<close>

definition lower_char :: "char \<Rightarrow> char" where
  "lower_char c =
     (let n = of_char c :: nat in
      if (65 \<le> n \<and> n \<le> 90) \<or> (192 \<le> n \<and> n \<le> 222 \<and> n \<noteq> 215)
      then char_of (n + 32) else c)"

definition lower :: "string \<Rightarrow> string" where
  "lower s = map lower_char s"

text \<open>
  \<open>str.strip()\<close> removes leading and trailing white space; below 256 Python counts as
  white space the code points \<open>0x09..0x0D\<close>, \<open>0x1C..0x20\<close>, \<open>0x85\<close> and \<open>0xA0\<close>.
\<close>

definition is_space :: "char \<Rightarrow> bool" where
  "is_space c =
     (let n = of_char c :: nat in
      (9 \<le> n \<and> n \<le> 13) \<or> (28 \<le> n \<and> n \<le> 32) \<or> n = 133 \<or> n = 160)"

definition strip :: "string \<Rightarrow> string" where
  "strip s = rev (dropWhile is_space (rev (dropWhile is_space s)))"

text \<open>\<open>s.split(sep)\<close> for a separator of one character; the result is never empty.\<close>

fun split :: "char \<Rightarrow> string \<Rightarrow> string list" where
  "split sep [] = [[]]"
| "split sep (c # cs) =
     (if c = sep then [] # split sep cs
      else (case split sep cs of
              [] \<Rightarrow> [[c]]
            | part # parts \<Rightarrow> (c # part) # parts))"

text \<open>\<open>s.ljust(width, fill)\<close>: a width that is negative or not above \<open>len(s)\<close> adds nothing.\<close>

definition ljust :: "string \<Rightarrow> int \<Rightarrow> char \<Rightarrow> string" where
  "ljust s width fill = s @ replicate (nat width - length s) fill"

text \<open>
  \<open>int(s)\<close> for a string. The white space \<open>int\<close> skips around the number is not that of
  \<open>str.strip\<close>: it is \<open>0x09..0x0D\<close> and the blank, and \<open>0x85\<close> and \<open>0xA0\<close>, which \<open>int\<close>
  turns into blanks first; \<open>0x1C..0x1F\<close> are refused. One sign may lead, and the digits
  may be grouped by single underscores (\<open>int("1_000") == 1000\<close>). A number of more than
  4300 digits is refused (the default limit of Python 3.11 and later). \<open>None\<close> stands for
  the \<open>ValueError\<close> of every refused string.
\<close>

definition int_space :: "char \<Rightarrow> bool" where
  "int_space c =
     (let n = of_char c :: nat in (9 \<le> n \<and> n \<le> 13) \<or> n = 32 \<or> n = 133 \<or> n = 160)"

definition is_digit :: "char \<Rightarrow> bool" where
  "is_digit c = (let n = of_char c :: nat in 48 \<le> n \<and> n \<le> 57)"

definition digits_value :: "string \<Rightarrow> nat" where
  "digits_value ds = foldl (\<lambda>n c. 10 * n + (of_char c - 48)) 0 ds"

definition py_int :: "string \<Rightarrow> int option" where
  "py_int s =
     (let t = rev (dropWhile int_space (rev (dropWhile int_space s)));
          negative = (t \<noteq> [] \<and> hd t = CHR ''-'');
          body = (if t \<noteq> [] \<and> (hd t = CHR ''-'' \<or> hd t = CHR ''+'') then tl t else t);
          groups = split CHR ''_'' body
      in if list_all (\<lambda>g. g \<noteq> [] \<and> list_all is_digit g) groups
            \<and> length (concat groups) \<le> 4300
         then Some (if negative then - int (digits_value (concat groups))
                    else int (digits_value (concat groups)))
         else None)"

section \<open>The lexicon loaders\<close>



text \<open>\<open>load_illegal_combos\<close>: the stripped, lowercased lines of exactly two characters.\<close>

definition load_illegal_combos :: "string list option \<Rightarrow> string set" where
  "load_illegal_combos illegalcombos_txt =
     (case illegalcombos_txt of
        None \<Rightarrow> {}
      | Some lines \<Rightarrow>
          set (filter (\<lambda>pair. length pair = 2) (map (\<lambda>line. lower (strip line)) lines)))"

section \<open>The word predicate: \<open>check_word\<close> of \<open>protableword.py\<close>\<close>

text \<open>
  \<open>for i, c in enumerate(known_positions): if c is not None and word[i] != c: return False\<close>.
  \<open>Inr True\<close> says that the loop ran to its end, \<open>Inr False\<close> that it returned \<open>False\<close>;
  \<open>word[i]\<close> raises when a fixed slot lies beyond the word.
\<close>

fun check_known :: "string \<Rightarrow> nat \<Rightarrow> char option list \<Rightarrow> py_error + bool" where
  "check_known word i [] = Inr True"
| "check_known word i (None # cs) = check_known word (Suc i) cs"
| "check_known word i (Some c # cs) =
     (if i < length word
      then (if word ! i \<noteq> c then Inr False else check_known word (Suc i) cs)
      else Inl IndexError)"

text \<open>
  The inner loop over one entry of \<open>forbidden_positions\<close>:
  \<open>for pos in positions: if pos < len(word) and word[pos] == letter: return False\<close>.
  The key \<open>letter\<close> is a Python string (whatever stood before the colon of the entry),
  \<open>word[pos]\<close> is a string of one character.
\<close>

fun check_positions :: "string \<Rightarrow> string \<Rightarrow> int list \<Rightarrow> py_error + bool" where
  "check_positions word letter [] = Inr True"
| "check_positions word letter (pos # positions) =
     (if pos < int (length word)
      then (case str_index word pos of
              Inl e \<Rightarrow> Inl e
            | Inr ch \<Rightarrow> if [ch] = letter then Inr False
                       else check_positions word letter positions)
      else check_positions word letter positions)"

text \<open>
  \<open>for letter, positions in forbidden_positions.items()\<close>: a \<open>dict\<close> iterates in insertion
  order, so it is an association list (with distinct keys).
\<close>

type_synonym forbidden = "(string \<times> int list) list"

fun check_forbidden :: "string \<Rightarrow> forbidden \<Rightarrow> py_error + bool" where
  "check_forbidden word [] = Inr True"
| "check_forbidden word ((letter, positions) # items) =
     (case check_positions word letter positions of
        Inl e \<Rightarrow> Inl e
      | Inr False \<Rightarrow> Inr False
      | Inr True \<Rightarrow> check_forbidden word items)"

text \<open>
  \<open>if illegal_combos: for i in range(len(word)-1): if word[i:i+2].lower() in illegal_combos:
  return False\<close>. \<open>None\<close> and the empty set are both falsy and skip the loop.
\<close>

definition check_combos :: "string \<Rightarrow> string set option \<Rightarrow> bool" where
  "check_combos word illegal_combos =
     (case illegal_combos of
        None \<Rightarrow> True
      | Some combos \<Rightarrow>
          if combos = {} then True
          else list_all (\<lambda>i. lower (take 2 (drop i word)) \<notin> combos) [0 ..< length word - 1])"

definition check_word ::
  "string \<Rightarrow> char set \<Rightarrow> char set \<Rightarrow> char option list \<Rightarrow> forbidden \<Rightarrow>
   string set option \<Rightarrow> string set option \<Rightarrow> py_error + bool" where
  "check_word word excluded_letters required_letters known_positions forbidden_positions
     dictionary illegal_combos =
     (if (case dictionary of None \<Rightarrow> False | Some d \<Rightarrow> word \<notin> d) then Inr False
      else if (\<exists>ch \<in> set word. ch \<in> excluded_letters) then Inr False
      else if \<not> (\<forall>ch \<in> required_letters. ch \<in> set word) then Inr False
      else (case check_known word 0 known_positions of
              Inl e \<Rightarrow> Inl e
            | Inr False \<Rightarrow> Inr False
            | Inr True \<Rightarrow>
                (case check_forbidden word forbidden_positions of
                   Inl e \<Rightarrow> Inl e
                 | Inr False \<Rightarrow> Inr False
                 | Inr True \<Rightarrow> Inr (check_combos word illegal_combos))))"

text \<open>
  \<open>filter_chunk\<close>: the list comprehension \<open>[w for w in chunk if check_word(w, ...)]\<close>. An
  exception of \<open>check_word\<close> ends the comprehension.
\<close>

fun filter_chunk ::
  "string list \<Rightarrow> char set \<Rightarrow> char set \<Rightarrow> char option list \<Rightarrow> forbidden \<Rightarrow>
   string set option \<Rightarrow> string set option \<Rightarrow> py_error + string list" where
  "filter_chunk [] excluded_letters required_letters known_positions forbidden_positions
     dictionary illegal_combos = Inr []"
| "filter_chunk (w # chunk) excluded_letters required_letters known_positions forbidden_positions
     dictionary illegal_combos =
     (case check_word w excluded_letters required_letters known_positions forbidden_positions
             dictionary illegal_combos of
        Inl e \<Rightarrow> Inl e
      | Inr keep \<Rightarrow>
          (case filter_chunk chunk excluded_letters required_letters known_positions
                  forbidden_positions dictionary illegal_combos of
             Inl e \<Rightarrow> Inl e
           | Inr ws \<Rightarrow> Inr (if keep then w # ws else ws)))"

section \<open>The word predicate of \<open>wordl.py\<close>\<close>

text \<open>
  \<open>wordl.py\<close> keeps its constraints in module-level variables; the model passes them in
  a record, each field named after its variable. \<open>check_word\<close> there returns the word itself or \<open>None\<close>.
\<close>

record wordl_config =
  wordl_excluded_letters :: "char set"
  wordl_required_letters :: "char set"
  wordl_known_positions :: "char option list"
  wordl_forbidden_positions :: forbidden
  wordl_word_length :: nat
  wordl_USE_DICTIONARY :: bool

text \<open>
  \<open>for i in range(word_length): if known_positions[i] is not None and word[i] !=
  known_positions[i]: return None\<close>: both \<open>known_positions[i]\<close> and \<open>word[i]\<close> can
  raise.
\<close>

fun wordl_check_known :: "string \<Rightarrow> char option list \<Rightarrow> nat list \<Rightarrow> py_error + bool" where
  "wordl_check_known word known [] = Inr True"
| "wordl_check_known word known (i # is) =
     (if i < length known
      then (case known ! i of
              None \<Rightarrow> wordl_check_known word known is
            | Some c \<Rightarrow>
                if i < length word
                then (if word ! i \<noteq> c then Inr False else wordl_check_known word known is)
                else Inl IndexError)
      else Inl IndexError)"

text \<open>\<open>if pos < word_length and word[pos] == letter: return None\<close>: the guard is the
  configured length, not the length of the word.\<close>

fun wordl_check_positions :: "nat \<Rightarrow> string \<Rightarrow> string \<Rightarrow> int list \<Rightarrow> py_error + bool" where
  "wordl_check_positions wl word letter [] = Inr True"
| "wordl_check_positions wl word letter (pos # positions) =
     (if pos < int wl
      then (case str_index word pos of
              Inl e \<Rightarrow> Inl e
            | Inr ch \<Rightarrow> if [ch] = letter then Inr False
                       else wordl_check_positions wl word letter positions)
      else wordl_check_positions wl word letter positions)"

fun wordl_check_forbidden :: "nat \<Rightarrow> string \<Rightarrow> forbidden \<Rightarrow> py_error + bool" where
  "wordl_check_forbidden wl word [] = Inr True"
| "wordl_check_forbidden wl word ((letter, positions) # items) =
     (case wordl_check_positions wl word letter positions of
        Inl e \<Rightarrow> Inl e
      | Inr False \<Rightarrow> Inr False
      | Inr True \<Rightarrow> wordl_check_forbidden wl word items)"

definition wordl_check_word ::
  "wordl_config \<Rightarrow> string \<Rightarrow> string set option \<Rightarrow> py_error + string option" where
  "wordl_check_word cfg word dictionary =
     (if wordl_USE_DICTIONARY cfg \<and> (case dictionary of None \<Rightarrow> False | Some d \<Rightarrow> word \<notin> d)
      then Inr None
      else if wordl_excluded_letters cfg \<noteq> {} \<and> (\<exists>ch \<in> set word. ch \<in> wordl_excluded_letters cfg)
      then Inr None
      else if wordl_required_letters cfg \<noteq> {} \<and> \<not> (\<forall>ch \<in> wordl_required_letters cfg. ch \<in> set word)
      then Inr None
      else (case wordl_check_known word (wordl_known_positions cfg) [0 ..< wordl_word_length cfg] of
              Inl e \<Rightarrow> Inl e
            | Inr False \<Rightarrow> Inr None
            | Inr True \<Rightarrow>
                (case wordl_check_forbidden (wordl_word_length cfg) word (wordl_forbidden_positions cfg) of
                   Inl e \<Rightarrow> Inl e
                 | Inr False \<Rightarrow> Inr None
                 | Inr True \<Rightarrow> Inr (Some word))))"

text \<open>The constraints written at the top of \<open>wordl.py\<close>.\<close>

definition wordl_globals :: wordl_config where
  "wordl_globals =
     \<lparr> wordl_excluded_letters = set ''spektogh'',
       wordl_required_letters = set ''au'',
       wordl_known_positions = [None, None, None, Some CHR ''a'', None],
       wordl_forbidden_positions = [(''u'', [2])],
       wordl_word_length = 5,
       wordl_USE_DICTIONARY = True \<rparr>"

section \<open>The interactive session of \<open>protableword.py\<close>\<close>

text \<open>
  The persistent constraints of \<open>main\<close> and what it has printed. \<open>print\<close> of a text is a
  \<open>Line\<close>; the count and the list of words are kept as values rather than rendered.
\<close>

datatype printed = Line string | Remaining nat | Words "string list"

record session =
  master_excluded :: "char set"
  master_required :: "char set"
  master_known_positions :: "char option list"
  master_forbidden_positions :: forbidden
  stdout :: "printed list"

text \<open>
  The persistent constraints before the first turn: \<open>set()\<close>, \<open>set()\<close>,
  \<open>[None] * word_length\<close> (empty for a length that is not positive) and \<open>{}\<close>.
\<close>

definition initial_session :: "int \<Rightarrow> session" where
  "initial_session word_length =
     \<lparr> master_excluded = {}, master_required = {},
       master_known_positions = replicate (nat word_length) None,
       master_forbidden_positions = [], stdout = [] \<rparr>"

text \<open>
  \<open>[c if c != "_" else None for c in known_positions_input.ljust(word_length, "_")]\<close>
\<close>

definition parse_known :: "int \<Rightarrow> string \<Rightarrow> char option list" where
  "parse_known word_length known_positions_input =
     map (\<lambda>c. if c \<noteq> CHR ''_'' then Some c else None)
       (ljust known_positions_input word_length CHR ''_'')"

text \<open>
  The two branches \<open>if letter in d: d[letter].extend(positions) else: d[letter] = positions\<close>,
  used by the input loop on the turn's dictionary and by the merge on the master's one. A
  key that is there keeps its place; a new key goes to the end.
\<close>

fun dict_extend :: "string \<Rightarrow> int list \<Rightarrow> forbidden \<Rightarrow> forbidden" where
  "dict_extend letter positions [] = [(letter, positions)]"
| "dict_extend letter positions ((k, v) # d) =
     (if k = letter then (k, v @ positions) # d
      else (k, v) # dict_extend letter positions d)"

text \<open>
  The first two statements of the \<open>try\<close> block:
  \<open>letter, positions = fp.split(":")\<close>, which raises unless there are exactly two parts,
  and \<open>[int(p) for p in positions.split(",")] if "," in positions else [int(positions)]\<close>.
  \<open>None\<close> stands for the exception, which \<open>except Exception\<close> catches.
\<close>

fun int_list :: "string list \<Rightarrow> int list option" where
  "int_list [] = Some []"
| "int_list (p # ps) =
     (case py_int p of
        None \<Rightarrow> None
      | Some n \<Rightarrow> (case int_list ps of None \<Rightarrow> None | Some ns \<Rightarrow> Some (n # ns)))"

definition parse_entry :: "string \<Rightarrow> (string \<times> int list) option" where
  "parse_entry fp =
     (case split CHR '':'' fp of
        [letter, positions] \<Rightarrow>
          (case (if CHR '','' \<in> set positions then int_list (split CHR '','' positions)
                 else int_list [positions]) of
             None \<Rightarrow> None
           | Some ns \<Rightarrow> Some (letter, ns))
      | _ \<Rightarrow> None)"

text \<open>
  The loop that reads the yellow letters. Its state is the console input still to come,
  the session and the turn's \<open>forbidden_positions\<close>. A blank entry ends it; \<open>input()\<close> with
  nothing left to read raises \<open>EOFError\<close>, which nothing catches.
\<close>

fun read_forbidden ::
  "string list \<Rightarrow> session \<Rightarrow> forbidden \<Rightarrow> py_error + (string list \<times> session \<times> forbidden)" where
  "read_forbidden [] s forbidden_positions = Inl EOFError"
| "read_forbidden (line # stdin) s forbidden_positions =
     (let fp = lower (strip line) in
      if fp = [] then Inr (stdin, s, forbidden_positions)
      else (case parse_entry fp of
              Some (letter, positions) \<Rightarrow>
                read_forbidden stdin s (dict_extend letter positions forbidden_positions)
            | None \<Rightarrow>
                read_forbidden stdin
                  (s\<lparr>stdout := stdout s @ [Line ''Invalid format, try again.'']\<rparr>)
                  forbidden_positions))"

text \<open>
  The merge into the master constraints. First the loop
  \<open>for i in range(word_length): if known_positions[i] is not None:
  master_known_positions[i] = known_positions[i]\<close>, where both subscripts can raise.
\<close>

fun merge_known ::
  "nat list \<Rightarrow> char option list \<Rightarrow> char option list \<Rightarrow> py_error + char option list" where
  "merge_known [] known_positions master = Inr master"
| "merge_known (i # is) known_positions master =
     (if i < length known_positions
      then (case known_positions ! i of
              None \<Rightarrow> merge_known is known_positions master
            | Some c \<Rightarrow>
                if i < length master
                then merge_known is known_positions (master[i := Some c])
                else Inl IndexError)
      else Inl IndexError)"

fun merge_forbidden :: "forbidden \<Rightarrow> forbidden \<Rightarrow> forbidden" where
  "merge_forbidden [] master = master"
| "merge_forbidden ((letter, positions) # items) master =
     merge_forbidden items (dict_extend letter positions master)"

definition merge ::
  "int \<Rightarrow> session \<Rightarrow> char set \<Rightarrow> char set \<Rightarrow> char option list \<Rightarrow> forbidden \<Rightarrow>
   py_error + session" where
  "merge word_length s excluded_letters required_letters known_positions forbidden_positions =
     (case merge_known [0 ..< nat word_length] known_positions (master_known_positions s) of
        Inl e \<Rightarrow> Inl e
      | Inr known \<Rightarrow>
          Inr (s\<lparr> master_excluded := master_excluded s \<union> excluded_letters,
                 master_required := master_required s \<union> required_letters,
                 master_known_positions := known,
                 master_forbidden_positions :=
                   merge_forbidden forbidden_positions (master_forbidden_positions s) \<rparr>))"

text \<open>
  One turn up to the merge: three prompts, the loop of the yellow letters, the merge.
\<close>

definition read_turn :: "int \<Rightarrow> string list \<Rightarrow> session \<Rightarrow> py_error + (string list \<times> session)" where
  "read_turn word_length stdin s =
     (case stdin of
        grays # anywhere # greens # rest \<Rightarrow>
          (case read_forbidden rest s [] of
             Inl e \<Rightarrow> Inl e
           | Inr (stdin', s', forbidden_positions) \<Rightarrow>
               (case merge word_length s' (set (lower (strip grays))) (set (lower (strip anywhere)))
                       (parse_known word_length (lower (strip greens))) forbidden_positions of
                  Inl e \<Rightarrow> Inl e
                | Inr s'' \<Rightarrow> Inr (stdin', s'')))
      | _ \<Rightarrow> Inl EOFError)"

text \<open>\<open>check_word\<close> and \<open>filter_chunk\<close> with the master constraints of a session.\<close>

definition session_check ::
  "session \<Rightarrow> string set option \<Rightarrow> string set option \<Rightarrow> string \<Rightarrow> py_error + bool" where
  "session_check s dictionary illegal_combos w =
     check_word w (master_excluded s) (master_required s) (master_known_positions s)
       (master_forbidden_positions s) dictionary illegal_combos"

definition session_filter ::
  "session \<Rightarrow> string set option \<Rightarrow> string set option \<Rightarrow> string list \<Rightarrow> py_error + string list" where
  "session_filter s dictionary illegal_combos chunk =
     filter_chunk chunk (master_excluded s) (master_required s) (master_known_positions s)
       (master_forbidden_positions s) dictionary illegal_combos"

text \<open>
  The chunks \<open>[possible_words[i:i+chunk_size] for i in range(0, len(possible_words),
  chunk_size)]\<close>; \<open>chunk_size\<close> is \<open>max(1, len(possible_words) // os.cpu_count())\<close>, so it is
  at least 1.
\<close>

function slices :: "nat \<Rightarrow> nat \<Rightarrow> string list \<Rightarrow> string list list" where
  "slices i chunk_size possible_words =
     (if i < length possible_words \<and> 0 < chunk_size
      then take chunk_size (drop i possible_words) # slices (i + chunk_size) chunk_size possible_words
      else [])"
  by pat_completeness auto
termination
  by (relation "measure (\<lambda>(i, chunk_size, possible_words). length possible_words - i)") auto

declare slices.simps [simp del]

definition chunks :: "nat \<Rightarrow> string list \<Rightarrow> string list list" where
  "chunks cpu_count possible_words =
     slices 0 (max 1 (length possible_words div cpu_count)) possible_words"

text \<open>
  \<open>executor.map(func, chunks)\<close> followed by \<open>[w for sublist in results for w in sublist]\<close>:
  the results come back in the order of the chunks, and the exception of a worker is
  raised again when its result is reached.
\<close>

fun collect :: "(py_error + string list) list \<Rightarrow> py_error + string list" where
  "collect [] = Inr []"
| "collect (result # results) =
     (case result of
        Inl e \<Rightarrow> Inl e
      | Inr sublist \<Rightarrow>
          (case collect results of Inl e \<Rightarrow> Inl e | Inr ws \<Rightarrow> Inr (sublist @ ws)))"

definition filter_chunks ::
  "string list list \<Rightarrow> char set \<Rightarrow> char set \<Rightarrow> char option list \<Rightarrow> forbidden \<Rightarrow>
   string set option \<Rightarrow> string set option \<Rightarrow> py_error + string list" where
  "filter_chunks cs excluded_letters required_letters known_positions forbidden_positions
     dictionary illegal_combos =
     collect (map (\<lambda>chunk. filter_chunk chunk excluded_letters required_letters known_positions
                             forbidden_positions dictionary illegal_combos) cs)"

text \<open>\<open>save_words\<close>: the content written to \<open>output.txt\<close>, one word per line.\<close>

definition save_words :: "string list \<Rightarrow> string" where
  "save_words possible_words = concat (map (\<lambda>w. w @ [CHR 0x0A]) possible_words)"

text \<open>The report at the end of a turn: the count, then the list or the pointer to the file.\<close>

definition report :: "string list \<Rightarrow> printed list" where
  "report possible_words =
     [Remaining (length possible_words),
      if length possible_words \<le> 20 then Words possible_words
      else Line ''Too many to display. Check output.txt.'']"

section \<open>The specification's predicates\<close>

text \<open>
  The six conditions of the contract \<open>admit(word, constraints, lexicon?, illegalPairs?)\<close>,
  written after the specification. A position is in range when it is an index of the
  word: \<open>0 \<le> pos < len(word)\<close>.
\<close>

definition in_range :: "string \<Rightarrow> int \<Rightarrow> bool" where
  "in_range word pos \<longleftrightarrow> 0 \<le> pos \<and> pos < int (length word)"

definition admit ::
  "string \<Rightarrow> char set \<Rightarrow> char set \<Rightarrow> char option list \<Rightarrow> forbidden \<Rightarrow>
   string set option \<Rightarrow> string set option \<Rightarrow> bool" where
  "admit word excludedLetters requiredLetters knownPositions forbiddenPositions lexicon
     illegalPairs \<longleftrightarrow>
     (case lexicon of None \<Rightarrow> True | Some d \<Rightarrow> word \<in> d) \<and>
     (\<forall>ch \<in> set word. ch \<notin> excludedLetters) \<and>
     (\<forall>ch \<in> requiredLetters. ch \<in> set word) \<and>
     (\<forall>i \<in> {0 ..< length knownPositions}.
        case knownPositions ! i of None \<Rightarrow> True | Some c \<Rightarrow> word ! i = c) \<and>
     (\<forall>(letter, positions) \<in> set forbiddenPositions. \<forall>pos \<in> set positions.
        in_range word pos \<longrightarrow> [word ! nat pos] \<noteq> letter) \<and>
     (case illegalPairs of None \<Rightarrow> True
      | Some pairs \<Rightarrow> \<forall>i \<in> {0 ..< length word - 1}. take 2 (drop i word) \<notin> pairs)"

text \<open>Every forbidden position is an index counted from the start: none is negative.\<close>

definition positions_from_start :: "forbidden \<Rightarrow> bool" where
  "positions_from_start forbidden_positions \<longleftrightarrow>
     (\<forall>(letter, positions) \<in> set forbidden_positions. \<forall>pos \<in> set positions. 0 \<le> pos)"

text \<open>
  A turn's known positions do not contradict the master's: where both fix a letter, it
  is the same letter.
\<close>

definition agrees :: "char option list \<Rightarrow> char option list \<Rightarrow> bool" where
  "agrees master known_positions \<longleftrightarrow>
     (\<forall>i \<in> {0 ..< min (length master) (length known_positions)}.
        master ! i = None \<or> known_positions ! i = None \<or> master ! i = known_positions ! i)"

text \<open>The forbidden positions without those at or beyond the end of the word.\<close>

definition within_word :: "string \<Rightarrow> forbidden \<Rightarrow> forbidden" where
  "within_word word forbidden_positions =
     map (\<lambda>(letter, positions). (letter, filter (\<lambda>pos. pos < int (length word)) positions))
       forbidden_positions"


section \<open>Evaluation lemmas\<close>

lemma str_index_nat [simp]:
  "i < length word \<Longrightarrow> str_index word (int i) = Inr (word ! i)"
  by (simp add: str_index_def)

lemma str_index_beyond [simp]:
  "int (length word) \<le> pos \<Longrightarrow> str_index word pos = Inl IndexError"
  by (simp add: str_index_def)

section \<open>The example of the specification\<close>

text \<open>
  C2. With the constraints of \<open>wordl.py\<close> (word length 5, excluded letters
  \<open>s p e k t o g h\<close>, required letters \<open>a u\<close>, known positions \<open>_ _ _ a _\<close>, forbidden
  positions \<open>u: [2]\<close>), no lexicon and no illegal pairs, both predicates admit
  \<open>unfad\<close> and reject \<open>usual\<close>.
\<close>

theorem example_unfad_usual:
  "check_word ''unfad'' (set ''spektogh'') (set ''au'') [None, None, None, Some CHR ''a'', None]
     [(''u'', [2])] None None = Inr True
   \<and> check_word ''usual'' (set ''spektogh'') (set ''au'') [None, None, None, Some CHR ''a'', None]
     [(''u'', [2])] None None = Inr False
   \<and> wordl_check_word wordl_globals ''unfad'' None = Inr (Some ''unfad'')
   \<and> wordl_check_word wordl_globals ''usual'' None = Inr None"
  by (simp add: check_word_def wordl_check_word_def wordl_globals_def check_combos_def
      str_index_def upt_rec)

theorem example_unfad_usual_witness:
  "check_word ''unfad'' (set ''spektogh'') (set ''au'') [None, None, None, Some CHR ''a'', None]
     [(''u'', [2])] None None = Inr True"
  by (rule conjunct1 [OF example_unfad_usual])

section \<open>What the loops of the predicate decide\<close>

lemma str_index_in_range:
  "in_range word pos \<Longrightarrow> str_index word pos = Inr (word ! nat pos)"
  by (simp add: in_range_def str_index_def)

lemma check_known_True:
  "check_known word i cs = Inr True \<longleftrightarrow>
   (\<forall>j < length cs. \<forall>c. cs ! j = Some c \<longrightarrow> i + j < length word \<and> word ! (i + j) = c)"
proof (induction cs arbitrary: i)
  case Nil
  show ?case by simp
next
  case (Cons x cs)
  show ?case
  proof (cases x)
    case None
    then show ?thesis by (simp add: Cons.IH All_less_Suc2)
  next
    case (Some c)
    then show ?thesis by (auto simp: Cons.IH All_less_Suc2)
  qed
qed

lemma check_positions_True:
  "check_positions word letter positions = Inr True \<longleftrightarrow>
   (\<forall>pos \<in> set positions. pos < int (length word) \<longrightarrow>
      (\<exists>ch. str_index word pos = Inr ch \<and> [ch] \<noteq> letter))"
proof (induction positions)
  case Nil
  show ?case by simp
next
  case (Cons pos positions)
  show ?case
  proof (cases "pos < int (length word)")
    case False
    then show ?thesis by (simp add: Cons.IH)
  next
    case True
    then show ?thesis
      by (cases "str_index word pos") (simp_all add: Cons.IH)
  qed
qed

lemma check_forbidden_True:
  "check_forbidden word items = Inr True \<longleftrightarrow>
   (\<forall>(letter, positions) \<in> set items. check_positions word letter positions = Inr True)"
proof (induction items)
  case Nil
  show ?case by simp
next
  case (Cons item items)
  obtain letter positions where item: "item = (letter, positions)" by (cases item)
  show ?case unfolding item
    by (cases "check_positions word letter positions")
      (auto simp: Cons.IH split: bool.splits)
qed

lemma check_word_True:
  "check_word word excluded_letters required_letters known_positions forbidden_positions
     dictionary illegal_combos = Inr True \<longleftrightarrow>
   (case dictionary of None \<Rightarrow> True | Some d \<Rightarrow> word \<in> d) \<and>
   (\<forall>ch \<in> set word. ch \<notin> excluded_letters) \<and>
   (\<forall>ch \<in> required_letters. ch \<in> set word) \<and>
   check_known word 0 known_positions = Inr True \<and>
   check_forbidden word forbidden_positions = Inr True \<and>
   check_combos word illegal_combos"
  by (auto simp: check_word_def split: sum.splits bool.splits option.splits)

lemma lower_slice:
  "lower word = word \<Longrightarrow> lower (take n (drop i word)) = take n (drop i word)"
  by (metis lower_def take_map drop_map)

lemma check_combos_lowercase:
  "lower word = word \<Longrightarrow>
   check_combos word illegal_combos =
     (case illegal_combos of None \<Rightarrow> True
      | Some pairs \<Rightarrow> \<forall>i \<in> {0 ..< length word - 1}. take 2 (drop i word) \<notin> pairs)"
  by (auto simp: check_combos_def lower_slice list_all_iff split: option.splits)

lemma known_slots:
  "length word = length known \<Longrightarrow>
   (\<forall>j < length known. \<forall>c. known ! j = Some c \<longrightarrow> j < length word \<and> word ! j = c) \<longleftrightarrow>
   (\<forall>i \<in> {0 ..< length known}. case known ! i of None \<Rightarrow> True | Some c \<Rightarrow> word ! i = c)"
  by (auto split: option.splits)

lemma positions_slots:
  assumes "\<forall>pos \<in> set positions. 0 \<le> pos"
  shows "check_positions word letter positions = Inr True \<longleftrightarrow>
         (\<forall>pos \<in> set positions. in_range word pos \<longrightarrow> [word ! nat pos] \<noteq> letter)"
proof -
  have "(pos < int (length word) \<longrightarrow> (\<exists>ch. str_index word pos = Inr ch \<and> [ch] \<noteq> letter))
        \<longleftrightarrow> (in_range word pos \<longrightarrow> [word ! nat pos] \<noteq> letter)"
    if "pos \<in> set positions" for pos
  proof (cases "pos < int (length word)")
    case True
    with assms that have "in_range word pos" by (simp add: in_range_def)
    with True show ?thesis by (simp add: str_index_in_range)
  next
    case False
    then show ?thesis by (simp add: in_range_def)
  qed
  then show ?thesis unfolding check_positions_True by blast
qed

lemma forbidden_slots:
  assumes "positions_from_start items"
  shows "(\<forall>(letter, positions) \<in> set items. check_positions word letter positions = Inr True)
         \<longleftrightarrow> (\<forall>(letter, positions) \<in> set items. \<forall>pos \<in> set positions.
                in_range word pos \<longrightarrow> [word ! nat pos] \<noteq> letter)"
proof -
  have "check_positions word letter positions = Inr True \<longleftrightarrow>
        (\<forall>pos \<in> set positions. in_range word pos \<longrightarrow> [word ! nat pos] \<noteq> letter)"
    if "(letter, positions) \<in> set items" for letter positions
  proof (rule positions_slots)
    from assms that show "\<forall>pos \<in> set positions. 0 \<le> pos"
      unfolding positions_from_start_def by blast
  qed
  then show ?thesis by blast
qed

lemma wordl_check_known_True:
  "wordl_check_known word known is = Inr True \<longleftrightarrow>
   (\<forall>i \<in> set is. i < length known \<and>
      (\<forall>c. known ! i = Some c \<longrightarrow> i < length word \<and> word ! i = c))"
  by (induction "is") (auto split: option.splits)

lemma wordl_check_positions_same:
  "wl = length word \<Longrightarrow>
   wordl_check_positions wl word letter positions = check_positions word letter positions"
  by (induction positions) (auto split: sum.splits)

lemma wordl_check_forbidden_same:
  "wl = length word \<Longrightarrow> wordl_check_forbidden wl word items = check_forbidden word items"
  by (induction items) (auto simp: wordl_check_positions_same split: sum.splits bool.splits)

lemma wordl_check_word_Some:
  "wordl_check_word cfg word dictionary = Inr (Some word) \<longleftrightarrow>
   (wordl_USE_DICTIONARY cfg \<longrightarrow> (case dictionary of None \<Rightarrow> True | Some d \<Rightarrow> word \<in> d)) \<and>
   (\<forall>ch \<in> set word. ch \<notin> wordl_excluded_letters cfg) \<and>
   (\<forall>ch \<in> wordl_required_letters cfg. ch \<in> set word) \<and>
   wordl_check_known word (wordl_known_positions cfg) [0 ..< wordl_word_length cfg] = Inr True \<and>
   wordl_check_forbidden (wordl_word_length cfg) word (wordl_forbidden_positions cfg) = Inr True"
  by (auto simp: wordl_check_word_def split: sum.splits bool.splits option.splits)

section \<open>The word predicate and its contract\<close>

text \<open>
  Where every forbidden position is counted from the start, the predicate is the contract:
  for a lowercase word whose length is that of \<open>known_positions\<close>, \<open>check_word\<close> returns
  \<open>True\<close> if and only if the six conditions of \<open>admit\<close> hold, and the predicate of \<open>wordl.py\<close>
  returns the word under the first five, its lexicon counting as given when
  \<open>USE_DICTIONARY\<close> is set.
\<close>

lemma check_word_admit_from_start:
  assumes len: "length word = length known_positions"
    and low: "lower word = word"
    and idx: "positions_from_start forbidden_positions"
  shows "(check_word word excluded_letters required_letters known_positions forbidden_positions
            dictionary illegal_combos = Inr True
          \<longleftrightarrow> admit word excluded_letters required_letters known_positions forbidden_positions
            dictionary illegal_combos)
       \<and> (wordl_check_word
            \<lparr> wordl_excluded_letters = excluded_letters, wordl_required_letters = required_letters,
              wordl_known_positions = known_positions,
              wordl_forbidden_positions = forbidden_positions,
              wordl_word_length = length word, wordl_USE_DICTIONARY = use_dictionary \<rparr>
            word dictionary = Inr (Some word)
          \<longleftrightarrow> admit word excluded_letters required_letters known_positions forbidden_positions
            (if use_dictionary then dictionary else None) None)"
proof
  show "check_word word excluded_letters required_letters known_positions forbidden_positions
          dictionary illegal_combos = Inr True
        \<longleftrightarrow> admit word excluded_letters required_letters known_positions forbidden_positions
          dictionary illegal_combos"
    unfolding check_word_True check_known_True check_forbidden_True admit_def
      check_combos_lowercase [OF low] forbidden_slots [OF idx]
    using known_slots [OF len] by simp
next
  have known: "wordl_check_known word known_positions [0 ..< length word] = Inr True \<longleftrightarrow>
      (\<forall>i \<in> {0 ..< length known_positions}.
         case known_positions ! i of None \<Rightarrow> True | Some c \<Rightarrow> word ! i = c)"
    unfolding wordl_check_known_True using len by (auto split: option.splits)
  show "wordl_check_word
          \<lparr> wordl_excluded_letters = excluded_letters, wordl_required_letters = required_letters,
            wordl_known_positions = known_positions,
            wordl_forbidden_positions = forbidden_positions,
            wordl_word_length = length word, wordl_USE_DICTIONARY = use_dictionary \<rparr>
          word dictionary = Inr (Some word)
        \<longleftrightarrow> admit word excluded_letters required_letters known_positions forbidden_positions
          (if use_dictionary then dictionary else None) None"
    unfolding wordl_check_word_Some admit_def
    using known forbidden_slots [OF idx]
    by (simp add: wordl_check_forbidden_same check_forbidden_True)
qed

text \<open>
  C1. The contract says that the predicate returns true exactly under the six conditions.
  The code does not, for a forbidden position that is negative: the guard
  \<open>pos < len(word)\<close> has no lower bound. The entry \<open>r:-6\<close> makes \<open>check_word\<close> (and the
  predicate of \<open>wordl.py\<close>) raise \<open>IndexError\<close> on the five-letter word \<open>crane\<close>, and the
  entry \<open>d:-1\<close> makes it reject \<open>unfad\<close>, whose last letter Python reads at \<open>-1\<close>; both
  words fulfil all six conditions.
\<close>

theorem negative_position_slips:
  "length ''crane'' = length [None, None, None, None, None :: char option]
   \<and> lower ''crane'' = ''crane''
   \<and> admit ''crane'' {} {} [None, None, None, None, None] [(''r'', [-6])] None None
   \<and> check_word ''crane'' {} {} [None, None, None, None, None] [(''r'', [-6])] None None
       = Inl IndexError
   \<and> wordl_check_word
       \<lparr> wordl_excluded_letters = {}, wordl_required_letters = {},
         wordl_known_positions = [None, None, None, None, None],
         wordl_forbidden_positions = [(''r'', [-6])],
         wordl_word_length = 5, wordl_USE_DICTIONARY = True \<rparr> ''crane'' None
       = Inl IndexError
   \<and> lower ''unfad'' = ''unfad''
   \<and> admit ''unfad'' {} {} [None, None, None, None, None] [(''d'', [-1])] None None
   \<and> check_word ''unfad'' {} {} [None, None, None, None, None] [(''d'', [-1])] None None
       = Inr False"
  by (simp add: admit_def in_range_def check_word_def wordl_check_word_def check_combos_def
      str_index_def lower_def lower_char_def atLeastLessThan_upt upt_rec)

theorem negative_position_slips_witness:
  "check_word ''crane'' {} {} [None, None, None, None, None] [(''r'', [-6])] None None
     = Inl IndexError"
  by (rule conjunct1 [OF conjunct2 [OF conjunct2 [OF conjunct2 [OF negative_position_slips]]]])

section \<open>Forbidden positions beyond the word\<close>

lemma check_positions_within:
  "check_positions word letter (filter (\<lambda>pos. pos < int (length word)) positions) =
   check_positions word letter positions"
  by (induction positions) (auto split: sum.splits)

lemma check_forbidden_within:
  "check_forbidden word (within_word word items) = check_forbidden word items"
  by (induction items)
    (auto simp: within_word_def check_positions_within split: sum.splits bool.splits)

lemma check_positions_beyond:
  "\<forall>pos \<in> set positions. int (length word) \<le> pos \<Longrightarrow>
   check_positions word letter positions = Inr True"
  by (induction positions) auto

lemma wordl_check_positions_within:
  "wl \<le> length word \<Longrightarrow>
   wordl_check_positions wl word letter (filter (\<lambda>pos. pos < int (length word)) positions) =
   wordl_check_positions wl word letter positions"
  by (induction positions) (auto split: sum.splits)

lemma wordl_check_forbidden_within:
  "wl \<le> length word \<Longrightarrow>
   wordl_check_forbidden wl word (within_word word items) = wordl_check_forbidden wl word items"
  by (induction items)
    (auto simp: within_word_def wordl_check_positions_within split: sum.splits bool.splits)

lemma wordl_check_positions_beyond:
  "wl \<le> length word \<Longrightarrow> \<forall>pos \<in> set positions. int (length word) \<le> pos \<Longrightarrow>
   wordl_check_positions wl word letter positions = Inr True"
  by (induction positions) auto

text \<open>
  C10 as stated fails for the predicate of \<open>wordl.py\<close>, whose guard is \<open>pos < word_length\<close>
  and not \<open>pos < len(word)\<close>: on the word \<open>abc\<close> with \<open>word_length = 5\<close> the forbidden
  position 4, which lies beyond the word, is indexed and raises \<open>IndexError\<close>; without that
  position the word is returned.
\<close>

theorem wordl_short_word_raises:
  "int (length ''abc'') \<le> 4
   \<and> wordl_check_word
       \<lparr> wordl_excluded_letters = {}, wordl_required_letters = {},
         wordl_known_positions = [None, None, None, None, None],
         wordl_forbidden_positions = [(''a'', [4])],
         wordl_word_length = 5, wordl_USE_DICTIONARY = True \<rparr> ''abc'' None
       = Inl IndexError
   \<and> wordl_check_word
       \<lparr> wordl_excluded_letters = {}, wordl_required_letters = {},
         wordl_known_positions = [None, None, None, None, None],
         wordl_forbidden_positions = [(''a'', [])],
         wordl_word_length = 5, wordl_USE_DICTIONARY = True \<rparr> ''abc'' None
       = Inr (Some ''abc'')"
  by (simp add: wordl_check_word_def str_index_def upt_rec)

text \<open>
  C10 (as amended). In \<open>check_word\<close> of \<open>protableword.py\<close>, for every word, a forbidden
  position at or beyond the end of the word is skipped by the guard \<open>pos < len(word)\<close>
  before the word is indexed: it changes nothing in the result of the loop, an entry with
  only such positions never rejects and never raises, and deleting all such positions from
  the constraints leaves the result of \<open>check_word\<close> as it is. In \<open>check_word\<close> of
  \<open>wordl.py\<close> the same holds for every word that is at least \<open>word_length\<close> long.
\<close>

theorem beyond_word_ignored:
  "(int (length word) \<le> pos \<longrightarrow>
      check_positions word letter (pos # positions) = check_positions word letter positions)
   \<and> ((\<forall>pos \<in> set positions. int (length word) \<le> pos) \<longrightarrow>
      check_positions word letter positions = Inr True)
   \<and> check_word word excluded_letters required_letters known_positions
        (within_word word forbidden_positions) dictionary illegal_combos =
      check_word word excluded_letters required_letters known_positions
        forbidden_positions dictionary illegal_combos
   \<and> (wordl_word_length cfg \<le> length word \<longrightarrow>
        ((\<forall>pos \<in> set positions. int (length word) \<le> pos) \<longrightarrow>
           wordl_check_positions (wordl_word_length cfg) word letter positions = Inr True)
        \<and> wordl_check_word
            (cfg\<lparr>wordl_forbidden_positions := within_word word (wordl_forbidden_positions cfg)\<rparr>)
            word dictionary =
          wordl_check_word cfg word dictionary)"
proof (intro conjI impI)
  assume "int (length word) \<le> pos"
  then show "check_positions word letter (pos # positions) = check_positions word letter positions"
    by simp
next
  assume "\<forall>pos \<in> set positions. int (length word) \<le> pos"
  then show "check_positions word letter positions = Inr True"
    by (rule check_positions_beyond)
next
  show "check_word word excluded_letters required_letters known_positions
          (within_word word forbidden_positions) dictionary illegal_combos =
        check_word word excluded_letters required_letters known_positions
          forbidden_positions dictionary illegal_combos"
    unfolding check_word_def check_forbidden_within by (rule refl)
next
  assume "wordl_word_length cfg \<le> length word"
    and "\<forall>pos \<in> set positions. int (length word) \<le> pos"
  then show "wordl_check_positions (wordl_word_length cfg) word letter positions = Inr True"
    by (rule wordl_check_positions_beyond)
next
  assume long: "wordl_word_length cfg \<le> length word"
  show "wordl_check_word
          (cfg\<lparr>wordl_forbidden_positions := within_word word (wordl_forbidden_positions cfg)\<rparr>)
          word dictionary =
        wordl_check_word cfg word dictionary"
    unfolding wordl_check_word_def
    by (simp add: wordl_check_forbidden_within [OF long] cong: sum.case_cong bool.case_cong)
qed

theorem beyond_word_ignored_witness:
  "check_positions ''unfad'' ''u'' [5, 0] = check_positions ''unfad'' ''u'' [0]
   \<and> check_positions ''unfad'' ''u'' [5, 0] = Inr False
   \<and> check_positions ''unfad'' ''d'' [5, 9] = Inr True
   \<and> wordl_check_positions 5 ''unfad'' ''d'' [5, 9] = Inr True
   \<and> wordl_check_word (wordl_globals\<lparr>wordl_forbidden_positions := [(''u'', [2, 7])]\<rparr>)
       ''unfad'' None = Inr (Some ''unfad'')"
proof -
  let ?cfg = "wordl_globals\<lparr>wordl_forbidden_positions := [(''u'', [2, 7])]\<rparr>"
  have a: "int (length ''unfad'') \<le> 5" by simp
  have b: "\<forall>pos \<in> set [5, 9 :: int]. int (length ''unfad'') \<le> pos" by simp
  have c: "wordl_word_length ?cfg \<le> length ''unfad''" by (simp add: wordl_globals_def)
  have wl: "wordl_word_length ?cfg = 5" by (simp add: wordl_globals_def)
  have cut: "?cfg\<lparr>wordl_forbidden_positions :=
                 within_word ''unfad'' (wordl_forbidden_positions ?cfg)\<rparr> = wordl_globals"
    by (simp add: wordl_globals_def within_word_def)
  have run: "wordl_check_word wordl_globals ''unfad'' None = Inr (Some ''unfad'')"
    by (simp add: wordl_check_word_def wordl_globals_def str_index_def upt_rec)
  from beyond_word_ignored [of "''unfad''" 5 "''u''" "[0]" "{}" "{}" "[]" "[]" None None
      ?cfg] a
  have 1: "check_positions ''unfad'' ''u'' [5, 0] = check_positions ''unfad'' ''u'' [0]"
    by blast
  from beyond_word_ignored [of "''unfad''" 5 "''d''" "[5, 9]" "{}" "{}" "[]" "[]" None None
      ?cfg] b c
  have 2: "check_positions ''unfad'' ''d'' [5, 9] = Inr True"
    and 4: "wordl_check_positions (wordl_word_length ?cfg) ''unfad'' ''d'' [5, 9] = Inr True"
    and 5: "wordl_check_word
          (?cfg\<lparr>wordl_forbidden_positions :=
              within_word ''unfad'' (wordl_forbidden_positions ?cfg)\<rparr>) ''unfad'' None =
        wordl_check_word ?cfg ''unfad'' None"
    by blast+
  have 3: "check_positions ''unfad'' ''u'' [0] = Inr False" by (simp add: str_index_def)
  from 5 cut run have 6: "wordl_check_word ?cfg ''unfad'' None = Inr (Some ''unfad'')"
    by simp
  from 1 2 3 4 6 wl show ?thesis by simp
qed

section \<open>The filter driver\<close>

lemma filter_chunk_Inr:
  "filter_chunk chunk ex rq kp fp d ic = Inr ws \<longleftrightarrow>
   (\<forall>w \<in> set chunk. \<exists>keep. check_word w ex rq kp fp d ic = Inr keep) \<and>
   ws = filter (\<lambda>w. check_word w ex rq kp fp d ic = Inr True) chunk"
proof (induction chunk arbitrary: ws)
  case Nil
  show ?case by auto
next
  case (Cons w chunk)
  show ?case
  proof (cases "check_word w ex rq kp fp d ic")
    case (Inl e)
    then show ?thesis by auto
  next
    case (Inr keep)
    show ?thesis
    proof (cases "filter_chunk chunk ex rq kp fp d ic")
      case (Inl e)
      with Cons.IH have "\<not> (\<forall>w \<in> set chunk. \<exists>keep. check_word w ex rq kp fp d ic = Inr keep)"
        by auto
      with Inl Inr show ?thesis by auto
    next
      case tail: (Inr vs)
      with Cons.IH [of vs] Inr show ?thesis by (cases keep) auto
    qed
  qed
qed

lemma filter_chunk_append:
  "filter_chunk (xs @ ys) ex rq kp fp d ic =
   collect [filter_chunk xs ex rq kp fp d ic, filter_chunk ys ex rq kp fp d ic]"
proof (induction xs)
  case Nil
  show ?case by (simp split: sum.splits)
next
  case (Cons w xs)
  then show ?case by (simp split: sum.splits)
qed

lemma filter_chunks_concat:
  "filter_chunks cs ex rq kp fp d ic = filter_chunk (concat cs) ex rq kp fp d ic"
proof (induction cs)
  case Nil
  show ?case by (simp add: filter_chunks_def)
next
  case (Cons c cs)
  then show ?case
    by (simp add: filter_chunks_def filter_chunk_append split: sum.splits)
qed

lemma concat_slices:
  "0 < chunk_size \<Longrightarrow> concat (slices i chunk_size possible_words) = drop i possible_words"
proof (induction i chunk_size possible_words rule: slices.induct)
  case (1 i chunk_size possible_words)
  show ?case
  proof (cases "i < length possible_words")
    case True
    with 1 have "concat (slices (i + chunk_size) chunk_size possible_words) =
        drop (i + chunk_size) possible_words" by simp
    with True 1(2) show ?thesis
      by (subst slices.simps) (simp add: add.commute [of i] flip: drop_drop)
  next
    case False
    then show ?thesis by (subst slices.simps) simp
  qed
qed

lemma concat_chunks: "concat (chunks cpu_count possible_words) = possible_words"
  by (simp add: chunks_def concat_slices)

text \<open>
  C3. Whatever the partition of the candidate list into contiguous chunks (any list of
  chunks whose concatenation is the list), collecting the outputs of \<open>filter_chunk\<close> in the
  order of the chunks gives exactly what \<open>filter_chunk\<close> gives on the whole list: the same
  words in the same order, or the same exception. The chunks that \<open>main\<close> cuts are such a
  partition.
\<close>

theorem chunked_filter_is_sequential:
  "(concat cs = possible_words \<longrightarrow>
      filter_chunks cs excluded_letters required_letters known_positions forbidden_positions
        dictionary illegal_combos =
      filter_chunk possible_words excluded_letters required_letters known_positions
        forbidden_positions dictionary illegal_combos)
   \<and> concat (chunks cpu_count possible_words) = possible_words
   \<and> filter_chunks (chunks cpu_count possible_words) excluded_letters required_letters
        known_positions forbidden_positions dictionary illegal_combos =
      filter_chunk possible_words excluded_letters required_letters known_positions
        forbidden_positions dictionary illegal_combos"
  by (simp add: filter_chunks_concat concat_chunks)

theorem chunked_filter_is_sequential_witness:
  "concat [[''unfad'', ''usual''], [], [''quart'']] = [''unfad'', ''usual'', ''quart'']
   \<and> filter_chunks [[''unfad'', ''usual''], [], [''quart'']] (set ''spektogh'') (set ''au'')
        [None, None, None, Some CHR ''a'', None] [(''u'', [2])] None None =
      filter_chunk [''unfad'', ''usual'', ''quart''] (set ''spektogh'') (set ''au'')
        [None, None, None, Some CHR ''a'', None] [(''u'', [2])] None None
   \<and> filter_chunk [''unfad'', ''usual'', ''quart''] (set ''spektogh'') (set ''au'')
        [None, None, None, Some CHR ''a'', None] [(''u'', [2])] None None = Inr [''unfad'']"
proof -
  have part: "concat [[''unfad'', ''usual''], [], [''quart'']] = [''unfad'', ''usual'', ''quart'']"
    by simp
  have run: "filter_chunk [''unfad'', ''usual'', ''quart''] (set ''spektogh'') (set ''au'')
        [None, None, None, Some CHR ''a'', None] [(''u'', [2])] None None = Inr [''unfad'']"
    by (simp add: check_word_def check_combos_def str_index_def)
  from chunked_filter_is_sequential [of "[[''unfad'', ''usual''], [], [''quart'']]"
      "[''unfad'', ''usual'', ''quart'']" "set ''spektogh''" "set ''au''"
      "[None, None, None, Some CHR ''a'', None]" "[(''u'', [2])]" None None 1] part run
  show ?thesis by blast
qed

text \<open>
  C5. Filtering is idempotent: \<open>filter_chunk\<close> applied to its own output, under the same
  constraints, returns that output unchanged.
\<close>

theorem filter_chunk_idempotent:
  assumes "filter_chunk chunk excluded_letters required_letters known_positions
             forbidden_positions dictionary illegal_combos = Inr ws"
  shows "filter_chunk ws excluded_letters required_letters known_positions
           forbidden_positions dictionary illegal_combos = Inr ws"
proof -
  let ?ok = "\<lambda>w. check_word w excluded_letters required_letters known_positions
                   forbidden_positions dictionary illegal_combos = Inr True"
  from assms have ws: "ws = filter ?ok chunk" by (simp add: filter_chunk_Inr)
  then have "\<forall>w \<in> set ws. ?ok w" by simp
  moreover from this have "filter ?ok ws = ws" by (simp add: filter_id_conv)
  ultimately show ?thesis unfolding filter_chunk_Inr by auto
qed

theorem filter_chunk_idempotent_witness:
  "filter_chunk [''unfad'', ''usual'', ''quart'', ''unlad''] (set ''spektogh'') (set ''au'')
        [None, None, None, Some CHR ''a'', None] [(''u'', [2])] None None
     = Inr [''unfad'', ''unlad'']
   \<and> filter_chunk [''unfad'', ''unlad''] (set ''spektogh'') (set ''au'')
        [None, None, None, Some CHR ''a'', None] [(''u'', [2])] None None
     = Inr [''unfad'', ''unlad'']"
proof -
  have run: "filter_chunk [''unfad'', ''usual'', ''quart'', ''unlad''] (set ''spektogh'') (set ''au'')
        [None, None, None, Some CHR ''a'', None] [(''u'', [2])] None None
     = Inr [''unfad'', ''unlad'']"
    by (simp add: check_word_def check_combos_def str_index_def)
  from run filter_chunk_idempotent [OF run] show ?thesis by blast
qed


section \<open>The merge of a turn into the master constraints\<close>

lemma merge_known_Inr:
  "merge_known is known_positions master = Inr master' \<Longrightarrow>
   length master' = length master \<and>
   (\<forall>j < length master.
      master' ! j = (if j \<in> set is \<and> known_positions ! j \<noteq> None then known_positions ! j
                     else master ! j))"
proof (induction "is" arbitrary: master)
  case Nil
  then show ?case by simp
next
  case (Cons i "is")
  from Cons.prems have inside: "i < length known_positions"
    by (auto split: if_splits)
  show ?case
  proof (cases "known_positions ! i")
    case None
    with Cons.prems inside have "merge_known is known_positions master = Inr master'"
      by simp
    from Cons.IH [OF this] None show ?thesis by auto
  next
    case (Some c)
    with Cons.prems inside have slot: "i < length master"
      and rest: "merge_known is known_positions (master[i := Some c]) = Inr master'"
      by (auto split: if_splits)
    from Cons.IH [OF rest] Some slot show ?thesis
      by (auto simp: nth_list_update)
  qed
qed

lemma merge_known_total:
  "\<forall>i \<in> set is. i < length known_positions \<and> i < length master \<Longrightarrow>
   \<exists>master'. merge_known is known_positions master = Inr master'"
proof (induction "is" arbitrary: master)
  case Nil
  show ?case by simp
next
  case (Cons i "is")
  show ?case
  proof (cases "known_positions ! i")
    case None
    with Cons show ?thesis by simp
  next
    case (Some c)
    from Cons.prems have "\<forall>j \<in> set is. j < length known_positions \<and> j < length (master[i := Some c])"
      by simp
    from Cons.IH [OF this] Cons.prems Some show ?thesis by simp
  qed
qed

lemma merge_Inr:
  assumes "length (master_known_positions s) = nat word_length"
    and "nat word_length \<le> length known_positions"
  shows "\<exists>known. merge_known [0 ..< nat word_length] known_positions (master_known_positions s)
             = Inr known
         \<and> merge word_length s excluded_letters required_letters known_positions
             forbidden_positions =
           Inr (s\<lparr> master_excluded := master_excluded s \<union> excluded_letters,
                  master_required := master_required s \<union> required_letters,
                  master_known_positions := known,
                  master_forbidden_positions :=
                    merge_forbidden forbidden_positions (master_forbidden_positions s) \<rparr>)"
proof -
  from assms have "\<forall>i \<in> set [0 ..< nat word_length].
      i < length known_positions \<and> i < length (master_known_positions s)"
    by simp
  from merge_known_total [OF this] obtain known where
    "merge_known [0 ..< nat word_length] known_positions (master_known_positions s) = Inr known"
    by blast
  then show ?thesis by (simp add: merge_def)
qed

text \<open>
  C6. The merge never unfixes a known position. With the master's known positions of
  length \<open>word_length\<close> and the turn's known positions at least that long (what \<open>main\<close>
  builds with \<open>[None] * word_length\<close> and \<open>ljust\<close>), the merge returns; the list keeps its
  length; a slot that held a letter before holds a letter after; and where that letter
  changed, it is the letter the turn fixed at this position.
\<close>

theorem merge_keeps_known:
  assumes len: "length (master_known_positions s) = nat word_length"
    and delta: "nat word_length \<le> length known_positions"
  shows "\<exists>s'. merge word_length s excluded_letters required_letters known_positions
                forbidden_positions = Inr s'
          \<and> length (master_known_positions s') = length (master_known_positions s)
          \<and> (\<forall>i < length (master_known_positions s).
                master_known_positions s ! i \<noteq> None \<longrightarrow>
                  master_known_positions s' ! i \<noteq> None
                  \<and> (master_known_positions s' ! i \<noteq> master_known_positions s ! i \<longrightarrow>
                       known_positions ! i = master_known_positions s' ! i))"
proof -
  from merge_Inr [OF len delta] obtain known where
    known: "merge_known [0 ..< nat word_length] known_positions (master_known_positions s)
              = Inr known"
    and m: "merge word_length s excluded_letters required_letters known_positions
              forbidden_positions =
            Inr (s\<lparr> master_excluded := master_excluded s \<union> excluded_letters,
                   master_required := master_required s \<union> required_letters,
                   master_known_positions := known,
                   master_forbidden_positions :=
                     merge_forbidden forbidden_positions (master_forbidden_positions s) \<rparr>)"
    by blast
  from merge_known_Inr [OF known]
  have "length known = length (master_known_positions s)"
    and "\<forall>i < length (master_known_positions s).
           master_known_positions s ! i \<noteq> None \<longrightarrow>
             known ! i \<noteq> None
             \<and> (known ! i \<noteq> master_known_positions s ! i \<longrightarrow> known_positions ! i = known ! i)"
    by auto
  with m show ?thesis by simp
qed

theorem merge_keeps_known_witness:
  "merge 5 (initial_session 5\<lparr>master_known_positions := [None, None, None, Some CHR ''a'', None]\<rparr>)
     {} {} (parse_known 5 ''u__'') []
   = Inr (initial_session 5
            \<lparr>master_known_positions := [Some CHR ''u'', None, None, Some CHR ''a'', None]\<rparr>)
   \<and> [None, None, None, Some CHR ''a'', None] ! 3 \<noteq> None
   \<and> [Some CHR ''u'', None, None, Some CHR ''a'', None] ! 3 \<noteq> None"
proof -
  let ?s = "initial_session 5\<lparr>master_known_positions := [None, None, None, Some CHR ''a'', None]\<rparr>"
  have len: "length (master_known_positions ?s) = nat 5" by simp
  have delta: "nat 5 \<le> length (parse_known 5 ''u__'')"
    by (simp add: parse_known_def ljust_def)
  have run: "merge 5 ?s {} {} (parse_known 5 ''u__'') []
      = Inr (initial_session 5
               \<lparr>master_known_positions := [Some CHR ''u'', None, None, Some CHR ''a'', None]\<rparr>)"
    by (simp add: merge_def parse_known_def ljust_def initial_session_def upt_rec)
  from merge_keeps_known [OF len delta, of "{}" "{}" "[]"] run
  show ?thesis by simp
qed

lemma dict_extend_keeps:
  "(letter, positions) \<in> set d \<Longrightarrow>
   \<exists>positions'. (letter, positions') \<in> set (dict_extend k v d) \<and> set positions \<subseteq> set positions'"
proof (induction d)
  case Nil
  then show ?case by simp
next
  case (Cons entry d)
  obtain k' v' where entry: "entry = (k', v')" by (cases entry)
  show ?case
  proof (cases "k' = k")
    case True
    show ?thesis
    proof (cases "(letter, positions) = entry")
      case here: True
      with entry True have "(letter, positions @ v) \<in> set (dict_extend k v (entry # d))"
        by simp
      then show ?thesis by (intro exI [of _ "positions @ v"]) simp
    next
      case False
      with Cons.prems have "(letter, positions) \<in> set d" by simp
      with entry True have "(letter, positions) \<in> set (dict_extend k v (entry # d))"
        by simp
      then show ?thesis by blast
    qed
  next
    case False
    show ?thesis
    proof (cases "(letter, positions) = entry")
      case True
      with entry False have "(letter, positions) \<in> set (dict_extend k v (entry # d))"
        by auto
      then show ?thesis by blast
    next
      case other: False
      with Cons.prems have "(letter, positions) \<in> set d" by simp
      from Cons.IH [OF this] entry False show ?thesis by auto
    qed
  qed
qed

lemma merge_forbidden_keeps:
  "(letter, positions) \<in> set master \<Longrightarrow>
   \<exists>positions'. (letter, positions') \<in> set (merge_forbidden items master)
      \<and> set positions \<subseteq> set positions'"
proof (induction items arbitrary: master positions)
  case Nil
  then show ?case by auto
next
  case (Cons item items)
  obtain k v where item: "item = (k, v)" by (cases item)
  from dict_extend_keeps [OF Cons.prems, of k v] obtain ps where
    ps: "(letter, ps) \<in> set (dict_extend k v master)" "set positions \<subseteq> set ps"
    by blast
  from Cons.IH [OF ps(1)] obtain ps' where
    "(letter, ps') \<in> set (merge_forbidden items (dict_extend k v master))" "set ps \<subseteq> set ps'"
    by blast
  with ps(2) item show ?case by auto
qed

lemma check_positions_subset:
  "set positions \<subseteq> set positions' \<Longrightarrow> check_positions word letter positions' = Inr True \<Longrightarrow>
   check_positions word letter positions = Inr True"
  unfolding check_positions_True by blast

lemma check_forbidden_merged:
  assumes "check_forbidden word (merge_forbidden items master) = Inr True"
  shows "check_forbidden word master = Inr True"
  unfolding check_forbidden_True
proof clarify
  fix letter positions
  assume "(letter, positions) \<in> set master"
  from merge_forbidden_keeps [OF this, of items] obtain positions' where
    "(letter, positions') \<in> set (merge_forbidden items master)" "set positions \<subseteq> set positions'"
    by blast
  with assms show "check_positions word letter positions = Inr True"
    unfolding check_forbidden_True by (auto intro: check_positions_subset)
qed

lemma check_known_merged:
  assumes known: "merge_known is known_positions master = Inr master'"
    and agree: "agrees master known_positions"
    and inside: "\<forall>i \<in> set is. i < length known_positions"
    and ok: "check_known word 0 master' = Inr True"
  shows "check_known word 0 master = Inr True"
  unfolding check_known_True
proof (intro allI impI)
  fix j c
  assume j: "j < length master" and c: "master ! j = Some c"
  from merge_known_Inr [OF known] j
  have len: "length master' = length master"
    and at: "master' ! j = (if j \<in> set is \<and> known_positions ! j \<noteq> None then known_positions ! j
                           else master ! j)"
    by auto
  have "master' ! j = Some c"
  proof (cases "j \<in> set is \<and> known_positions ! j \<noteq> None")
    case True
    with inside have "j < length known_positions" by auto
    with j have "j \<in> {0 ..< min (length master) (length known_positions)}" by simp
    with agree have "master ! j = None \<or> known_positions ! j = None
        \<or> master ! j = known_positions ! j"
      unfolding agrees_def by blast
    with c True have "known_positions ! j = Some c" by auto
    with at True show ?thesis by simp
  next
    case False
    with at c show ?thesis by simp
  qed
  with ok len j show "0 + j < length word \<and> word ! (0 + j) = c"
    unfolding check_known_True by auto
qed

text \<open>
  C4. The merge is monotonic. For a turn whose known positions do not contradict the
  master's (\<open>agrees\<close>), the merge returns, and every word that \<open>check_word\<close> admits under the
  merged constraints is admitted under the constraints before the merge: the admitted set
  can only shrink or stay equal.
\<close>

theorem merge_monotonic:
  assumes len: "length (master_known_positions s) = nat word_length"
    and delta: "nat word_length \<le> length known_positions"
    and agree: "agrees (master_known_positions s) known_positions"
  shows "\<exists>s'. merge word_length s excluded_letters required_letters known_positions
                forbidden_positions = Inr s'
          \<and> (\<forall>w. session_check s' dictionary illegal_combos w = Inr True \<longrightarrow>
                   session_check s dictionary illegal_combos w = Inr True)"
proof -
  from merge_Inr [OF len delta] obtain known where
    known: "merge_known [0 ..< nat word_length] known_positions (master_known_positions s)
              = Inr known"
    and m: "merge word_length s excluded_letters required_letters known_positions
              forbidden_positions =
            Inr (s\<lparr> master_excluded := master_excluded s \<union> excluded_letters,
                   master_required := master_required s \<union> required_letters,
                   master_known_positions := known,
                   master_forbidden_positions :=
                     merge_forbidden forbidden_positions (master_forbidden_positions s) \<rparr>)"
    by blast
  let ?s' = "s\<lparr> master_excluded := master_excluded s \<union> excluded_letters,
                master_required := master_required s \<union> required_letters,
                master_known_positions := known,
                master_forbidden_positions :=
                  merge_forbidden forbidden_positions (master_forbidden_positions s) \<rparr>"
  from delta have inside: "\<forall>i \<in> set [0 ..< nat word_length]. i < length known_positions"
    by simp
  have "session_check s dictionary illegal_combos w = Inr True"
    if w: "session_check ?s' dictionary illegal_combos w = Inr True" for w
  proof -
    from w have k: "check_known w 0 known = Inr True"
      and f: "check_forbidden w
                (merge_forbidden forbidden_positions (master_forbidden_positions s)) = Inr True"
      and rest: "(case dictionary of None \<Rightarrow> True | Some d \<Rightarrow> w \<in> d)"
        "\<forall>ch \<in> set w. ch \<notin> master_excluded s"
        "\<forall>ch \<in> master_required s. ch \<in> set w"
        "check_combos w illegal_combos"
      by (auto simp: session_check_def check_word_True)
    from check_known_merged [OF known agree inside k] check_forbidden_merged [OF f] rest
    show ?thesis by (simp add: session_check_def check_word_True)
  qed
  with m show ?thesis by blast
qed

theorem merge_monotonic_witness:
  "agrees [None, None, None, Some CHR ''a'', None] (parse_known 5 ''u__a'')
   \<and> merge 5 (initial_session 5\<lparr>master_known_positions := [None, None, None, Some CHR ''a'', None]\<rparr>)
       (set ''sp'') (set ''u'') (parse_known 5 ''u__a'') [(''u'', [2])]
     = Inr (initial_session 5
            \<lparr> master_excluded := set ''sp'', master_required := set ''u'',
              master_known_positions := [Some CHR ''u'', None, None, Some CHR ''a'', None],
              master_forbidden_positions := [(''u'', [2])] \<rparr>)
   \<and> session_check (initial_session 5
            \<lparr> master_excluded := set ''sp'', master_required := set ''u'',
              master_known_positions := [Some CHR ''u'', None, None, Some CHR ''a'', None],
              master_forbidden_positions := [(''u'', [2])] \<rparr>) None None ''unfad'' = Inr True
   \<and> session_check
       (initial_session 5\<lparr>master_known_positions := [None, None, None, Some CHR ''a'', None]\<rparr>)
       None None ''unfad'' = Inr True"
proof -
  let ?s = "initial_session 5\<lparr>master_known_positions := [None, None, None, Some CHR ''a'', None]\<rparr>"
  let ?s' = "initial_session 5
            \<lparr> master_excluded := set ''sp'', master_required := set ''u'',
              master_known_positions := [Some CHR ''u'', None, None, Some CHR ''a'', None],
              master_forbidden_positions := [(''u'', [2])] \<rparr>"
  have len: "length (master_known_positions ?s) = nat 5" by simp
  have delta: "nat 5 \<le> length (parse_known 5 ''u__a'')"
    by (simp add: parse_known_def ljust_def)
  have agree: "agrees (master_known_positions ?s) (parse_known 5 ''u__a'')"
    by (simp add: agrees_def parse_known_def ljust_def atLeastLessThan_upt upt_rec)
  have run: "merge 5 ?s (set ''sp'') (set ''u'') (parse_known 5 ''u__a'') [(''u'', [2])] = Inr ?s'"
    by (simp add: merge_def parse_known_def ljust_def initial_session_def upt_rec)
  have after: "session_check ?s' None None ''unfad'' = Inr True"
    by (simp add: session_check_def initial_session_def check_word_def check_combos_def
        str_index_def)
  from merge_monotonic [OF len delta agree, of "set ''sp''" "set ''u''" "[(''u'', [2])]" None None]
    run after
  have "session_check ?s None None ''unfad'' = Inr True" by auto
  with agree run after show ?thesis by simp
qed


section \<open>The lexicon loaders and their entries\<close>




section \<open>The loop of the yellow letters\<close>








section \<open>The report of a turn\<close>

text \<open>
  C9. After the filter pass the report always starts with the count of the surviving
  words; the list of the surviving words is printed if and only if there are at most 20 of
  them, and it is then the whole list; otherwise the second line is the pointer to
  \<open>output.txt\<close>, and nothing else is printed.
\<close>

theorem report_count_and_list:
  "length (report possible_words) = 2
   \<and> hd (report possible_words) = Remaining (length possible_words)
   \<and> (Words possible_words \<in> set (report possible_words) \<longleftrightarrow> length possible_words \<le> 20)
   \<and> (\<forall>ws. Words ws \<in> set (report possible_words) \<longrightarrow> ws = possible_words)
   \<and> (Line ''Too many to display. Check output.txt.'' \<in> set (report possible_words)
        \<longleftrightarrow> 20 < length possible_words)
   \<and> (\<forall>n. Remaining n \<in> set (report possible_words) \<longrightarrow> n = length possible_words)"
  by (auto simp: report_def)

theorem report_count_and_list_witness:
  "Words [''unfad'', ''unlad''] \<in> set (report [''unfad'', ''unlad''])
   \<and> hd (report [''unfad'', ''unlad'']) = Remaining 2
   \<and> Words (replicate 21 ''unfad'') \<notin> set (report (replicate 21 ''unfad''))
   \<and> Line ''Too many to display. Check output.txt.'' \<in> set (report (replicate 21 ''unfad''))"
proof -
  from report_count_and_list [of "[''unfad'', ''unlad'']"]
  have few: "Words [''unfad'', ''unlad''] \<in> set (report [''unfad'', ''unlad''])"
    and count: "hd (report [''unfad'', ''unlad'']) = Remaining 2"
    by simp_all
  from report_count_and_list [of "replicate 21 ''unfad''"]
  have many: "Words (replicate 21 ''unfad'') \<notin> set (report (replicate 21 ''unfad''))"
    and pointer: "Line ''Too many to display. Check output.txt.''
        \<in> set (report (replicate 21 ''unfad''))"
    by simp_all
  from few count many pointer show ?thesis by simp
qed

end
